theory Spec2Isabelle
  imports Main
begin

section \<open>The boundary layer of src/cython/common.hpp\<close>

text \<open>
  The header glues a generic C++ string-matching library to the CPython runtime.
  It contains the translation of C++ exceptions into Python errors
  (\<open>CppExn2PyErr\<close>), the RAII wrapper \<open>RF_StringWrapper\<close>, the width dispatch
  \<open>visit\<close> / \<open>visitor\<close>, the conversion of Python strings (\<open>validate_string\<close>,
  \<open>convert_string\<close>) and the type-erased scorer (\<open>scorer_init_f64\<close>,
  \<open>scorer_func_wrapper_f64\<close>).

  Conventions of the embedding:
  \<^item> a C++ function that may throw returns \<open>cpp_exn + 'a\<close> (\<open>Inl\<close> is the exception
    in flight); where it also has effects it is a function from the state to such a
    result paired with the new state;
  \<^item> a call that the language leaves undefined or that ends in \<open>std::terminate\<close> is
    a value of \<open>outcome\<close>;
  \<^item> data pointers are byte addresses (\<open>nat\<close>), pointers that the code only tests
    against \<open>nullptr\<close> and passes on are \<open>nat option\<close> (\<open>None\<close> is \<open>nullptr\<close>);
  \<^item> \<open>size_t\<close> and \<open>Py_ssize_t\<close> values are \<open>nat\<close>: the header does no arithmetic
    on them besides \<open>data + length\<close>, which C++ defines only inside the allocation.
\<close>

subsection \<open>C++ exceptions\<close>

text \<open>
  The exception classes that the handlers of \<open>CppExn2PyErr\<close> name, their bases in
  the standard library, and \<open>PythonTypeError\<close>, which the header derives from
  \<open>std::bad_typeid\<close>. \<open>Std_length_error\<close> and \<open>Std_bad_array_new_length\<close> stand
  for the standard classes that no handler names.
\<close>

datatype cpp_class =
    Std_exception
  | Std_bad_alloc
  | Std_bad_array_new_length
  | Std_bad_cast
  | Std_bad_typeid
  | PythonTypeError
  | Std_logic_error
  | Std_domain_error
  | Std_invalid_argument
  | Std_length_error
  | Std_out_of_range
  | Std_runtime_error
  | Std_range_error
  | Std_overflow_error
  | Std_underflow_error
  | Std_system_error
  | Std_ios_base_failure

text \<open>The class itself followed by its public bases, nearest first.\<close>

fun bases :: "cpp_class \<Rightarrow> cpp_class list" where
  "bases Std_exception = [Std_exception]"
| "bases Std_bad_alloc = [Std_bad_alloc, Std_exception]"
| "bases Std_bad_array_new_length = [Std_bad_array_new_length, Std_bad_alloc, Std_exception]"
| "bases Std_bad_cast = [Std_bad_cast, Std_exception]"
| "bases Std_bad_typeid = [Std_bad_typeid, Std_exception]"
| "bases PythonTypeError = [PythonTypeError, Std_bad_typeid, Std_exception]"
| "bases Std_logic_error = [Std_logic_error, Std_exception]"
| "bases Std_domain_error = [Std_domain_error, Std_logic_error, Std_exception]"
| "bases Std_invalid_argument = [Std_invalid_argument, Std_logic_error, Std_exception]"
| "bases Std_length_error = [Std_length_error, Std_logic_error, Std_exception]"
| "bases Std_out_of_range = [Std_out_of_range, Std_logic_error, Std_exception]"
| "bases Std_runtime_error = [Std_runtime_error, Std_exception]"
| "bases Std_range_error = [Std_range_error, Std_runtime_error, Std_exception]"
| "bases Std_overflow_error = [Std_overflow_error, Std_runtime_error, Std_exception]"
| "bases Std_underflow_error = [Std_underflow_error, Std_runtime_error, Std_exception]"
| "bases Std_system_error = [Std_system_error, Std_runtime_error, Std_exception]"
| "bases Std_ios_base_failure =
     [Std_ios_base_failure, Std_system_error, Std_runtime_error, Std_exception]"

text \<open>
  A thrown object: either an object of a class derived from \<open>std::exception\<close>,
  with the string its \<open>what()\<close> returns, or an object of any other type
  (\<open>throw 42\<close>), which has no \<open>what()\<close>.
\<close>

datatype cpp_exn = Exn cpp_class string | Foreign

text \<open>\<open>catch (const C& exn)\<close> matches an object whose class is \<open>C\<close> or derives from it.\<close>

fun catches :: "cpp_class \<Rightarrow> cpp_exn \<Rightarrow> bool" where
  "catches c (Exn d msg) = (c \<in> set (bases d))"
| "catches c Foreign = False"

fun what :: "cpp_exn \<Rightarrow> string" where
  "what (Exn d msg) = msg"
| "what Foreign = []"

text \<open>
  How a call ends when it does not simply return or throw: \<open>Terminates\<close> is a call
  of \<open>std::terminate\<close>, \<open>Undefined\<close> is behaviour that C++ leaves undefined (reading
  through a pointer that points to no object).
\<close>

datatype 'a outcome = Returns 'a | Terminates | Undefined

subsection \<open>The CPython state\<close>

text \<open>The exception types of the host that the header installs.\<close>

datatype py_exc =
    PyExc_MemoryError
  | PyExc_TypeError
  | PyExc_ValueError
  | PyExc_IOError
  | PyExc_IndexError
  | PyExc_OverflowError
  | PyExc_ArithmeticError
  | PyExc_RuntimeError

text \<open>
  The part of the process state the header reads and writes: the error indicator of
  the interpreter (\<open>pending\<close>), whether the calling thread holds the interpreter lock,
  and the C++ heap. \<open>operator new\<close> hands out the addresses \<open>next_addr\<close>,
  \<open>next_addr + 1\<close>, ... below \<open>capacity\<close> and throws \<open>std::bad_alloc\<close> beyond;
  \<open>allocs\<close> counts its successful calls, whoever makes them. \<open>heap\<close> holds the
  scorer objects that live in such storage.
\<close>

record 'sc world =
  pending :: "(py_exc \<times> string) option"
  gil_held :: bool
  heap :: "nat \<Rightarrow> 'sc option"
  next_addr :: nat
  capacity :: nat
  allocs :: nat

definition PyErr_Occurred :: "'sc world \<Rightarrow> bool" where
  "PyErr_Occurred w = (pending w \<noteq> None)"

definition PyErr_SetString :: "py_exc \<Rightarrow> string \<Rightarrow> 'sc world \<Rightarrow> 'sc world" where
  "PyErr_SetString ty msg w = w\<lparr>pending := Some (ty, msg)\<rparr>"

text \<open>
  \<open>PyGILState_Ensure\<close> takes the lock and returns whether it was held before;
  \<open>PyGILState_Release\<close> restores that.
\<close>

definition PyGILState_Ensure :: "'sc world \<Rightarrow> bool \<times> 'sc world" where
  "PyGILState_Ensure w = (gil_held w, w\<lparr>gil_held := True\<rparr>)"

definition PyGILState_Release :: "bool \<Rightarrow> 'sc world \<Rightarrow> 'sc world" where
  "PyGILState_Release gilstate_save w = w\<lparr>gil_held := gilstate_save\<rparr>"

subsection \<open>CppExn2PyErr\<close>

text \<open>
  The first argument is the exception being handled when the function is called
  (\<open>None\<close>: the call is not inside a handler). The function rethrows it with
  \<open>throw;\<close> and lets its own handlers pick the Python error, in the order of the
  source. \<open>throw;\<close> with no exception being handled calls \<open>std::terminate\<close>.
\<close>

definition CppExn2PyErr :: "cpp_exn option \<Rightarrow> 'sc world \<Rightarrow> 'sc world outcome" where
  "CppExn2PyErr current w =
     (if PyErr_Occurred w then Returns w
      else case current of
        None \<Rightarrow> Terminates
      | Some exn \<Rightarrow> Returns
         (if catches Std_bad_alloc exn then PyErr_SetString PyExc_MemoryError (what exn) w
          else if catches Std_bad_cast exn then PyErr_SetString PyExc_TypeError (what exn) w
          else if catches Std_bad_typeid exn then PyErr_SetString PyExc_TypeError (what exn) w
          else if catches Std_domain_error exn then PyErr_SetString PyExc_ValueError (what exn) w
          else if catches Std_invalid_argument exn then PyErr_SetString PyExc_ValueError (what exn) w
          else if catches Std_ios_base_failure exn then PyErr_SetString PyExc_IOError (what exn) w
          else if catches Std_out_of_range exn then PyErr_SetString PyExc_IndexError (what exn) w
          else if catches Std_overflow_error exn then PyErr_SetString PyExc_OverflowError (what exn) w
          else if catches Std_range_error exn then PyErr_SetString PyExc_ArithmeticError (what exn) w
          else if catches Std_underflow_error exn then PyErr_SetString PyExc_ArithmeticError (what exn) w
          else if catches Std_exception exn then PyErr_SetString PyExc_RuntimeError (what exn) w
          else PyErr_SetString PyExc_RuntimeError ''Unknown exception'' w))"

subsection \<open>RF_String and the width dispatch\<close>

text \<open>
  \<open>RF_String\<close> and \<open>RF_StringType\<close> are declared in rapidfuzz_capi.h, which the
  header includes. The header itself fixes what the embedding needs: the
  enumerators are the first column of \<open>LIST_OF_CASES\<close>, numbered by C from 0 in
  that order; the struct is built from five positional values
  \<open>{nullptr, kind, data, length, nullptr}\<close> and read through \<open>dtor\<close>, \<open>kind\<close>,
  \<open>data\<close> and \<open>length\<close>. The fifth member is never named in the header and is
  \<open>nullptr\<close> wherever the header builds a value. An \<open>RF_StringType\<close> is kept as
  the number it holds, so that a value outside the enumeration can be written.
\<close>

type_synonym RF_StringType = nat

definition RF_UINT8 :: RF_StringType where "RF_UINT8 = 0"
definition RF_UINT16 :: RF_StringType where "RF_UINT16 = 1"
definition RF_UINT32 :: RF_StringType where "RF_UINT32 = 2"
definition RF_UINT64 :: RF_StringType where "RF_UINT64 = 3"

record RF_String =
  dtor :: "nat option"
  kind :: RF_StringType
  data :: nat
  length' :: nat
  context' :: "nat option"

text \<open>The element types of the second column of \<open>LIST_OF_CASES\<close> and their sizes in bytes.\<close>

datatype elem_type = Uint8_t | Uint16_t | Uint32_t | Uint64_t

fun sizeof :: "elem_type \<Rightarrow> nat" where
  "sizeof Uint8_t = 1"
| "sizeof Uint16_t = 2"
| "sizeof Uint32_t = 4"
| "sizeof Uint64_t = 8"

definition LIST_OF_CASES :: "(RF_StringType \<times> elem_type) list" where
  "LIST_OF_CASES =
     [(RF_UINT8, Uint8_t), (RF_UINT16, Uint16_t), (RF_UINT32, Uint32_t), (RF_UINT64, Uint64_t)]"

text \<open>
  A \<open>const type*\<close>: the element type and the byte address. Adding \<open>n\<close> moves the
  address by \<open>n\<close> elements; the difference of two pointers counts elements.
\<close>

datatype typed_ptr = Ptr elem_type nat

fun elem_of :: "typed_ptr \<Rightarrow> elem_type" where
  "elem_of (Ptr ty a) = ty"

fun ptr_add :: "typed_ptr \<Rightarrow> nat \<Rightarrow> typed_ptr" where
  "ptr_add (Ptr ty a) n = Ptr ty (a + n * sizeof ty)"

fun ptr_diff :: "typed_ptr \<Rightarrow> typed_ptr \<Rightarrow> nat" where
  "ptr_diff (Ptr ty b) (Ptr ty' a) = (b - a) div sizeof ty"

text \<open>A computation with effects on a state \<open>'s\<close> that returns an \<open>'a\<close> or throws.\<close>

type_synonym ('s, 'a) eff = "'s \<Rightarrow> (cpp_exn + 'a) \<times> 's"

definition throw :: "cpp_exn \<Rightarrow> ('s, 'a) eff" where
  "throw exn = (\<lambda>s. (Inl exn, s))"

text \<open>
  \<open>visit\<close>: the \<open>switch\<close> over \<open>str.kind\<close> has one \<open>case\<close> per entry of
  \<open>LIST_OF_CASES\<close>, each casting \<open>str.data\<close> to the entry's element type and
  returning \<open>f(data, data + str.length, args...)\<close>; the \<open>default\<close> throws. The
  trailing \<open>args...\<close> are the arguments \<open>f\<close> is already applied to. The state
  \<open>'s\<close> is the one the callback works on; the storage the exception of the
  \<open>default\<close> takes for its message is not part of it.
\<close>

definition visit :: "RF_String \<Rightarrow> (typed_ptr \<Rightarrow> typed_ptr \<Rightarrow> ('s, 'a) eff) \<Rightarrow> ('s, 'a) eff" where
  "visit str f =
     (case map_of LIST_OF_CASES (kind str) of
        Some ty \<Rightarrow> (let data_p = Ptr ty (data str) in f data_p (ptr_add data_p (length' str)))
      | None \<Rightarrow> throw (Exn Std_logic_error ''Invalid string type''))"

definition visitor ::
  "RF_String \<Rightarrow> RF_String \<Rightarrow>
   (typed_ptr \<Rightarrow> typed_ptr \<Rightarrow> typed_ptr \<Rightarrow> typed_ptr \<Rightarrow> ('s, 'a) eff) \<Rightarrow> ('s, 'a) eff" where
  "visitor str1 str2 f =
     visit str2 (\<lambda>first last. visit str1 (\<lambda>first1 last1. f first1 last1 first last))"

text \<open>
  The reference for the two-buffer dispatch: one entry for each of the sixteen
  pairs of width tags, looked up with the pair of tags, and the same failure for a
  pair that is not listed.
\<close>

definition LIST_OF_PAIRS ::
  "((RF_StringType \<times> RF_StringType) \<times> (elem_type \<times> elem_type)) list" where
  "LIST_OF_PAIRS =
     concat (map (\<lambda>(k1, ty1). map (\<lambda>(k2, ty2). ((k1, k2), (ty1, ty2))) LIST_OF_CASES)
       LIST_OF_CASES)"

definition visitor_by_pairs ::
  "RF_String \<Rightarrow> RF_String \<Rightarrow>
   (typed_ptr \<Rightarrow> typed_ptr \<Rightarrow> typed_ptr \<Rightarrow> typed_ptr \<Rightarrow> ('s, 'a) eff) \<Rightarrow> ('s, 'a) eff" where
  "visitor_by_pairs str1 str2 f =
     (case map_of LIST_OF_PAIRS (kind str1, kind str2) of
        Some (ty1, ty2) \<Rightarrow>
          f (Ptr ty1 (data str1)) (ptr_add (Ptr ty1 (data str1)) (length' str1))
            (Ptr ty2 (data str2)) (ptr_add (Ptr ty2 (data str2)) (length' str2))
      | None \<Rightarrow> throw (Exn Std_logic_error ''Invalid string type''))"

text \<open>
  A probe for counting calls: \<open>logged args m\<close> runs \<open>m\<close> and appends \<open>args\<close> to a
  log kept beside the state. A callback wrapped in it records every invocation
  with the pointers it received.
\<close>

definition logged ::
  "typed_ptr list \<Rightarrow> ('s \<Rightarrow> 'r \<times> 's) \<Rightarrow> typed_ptr list list \<times> 's \<Rightarrow> 'r \<times> (typed_ptr list list \<times> 's)" where
  "logged args m = (\<lambda>(log, s). case m s of (r, s') \<Rightarrow> (r, (log @ [args], s')))"

subsection \<open>RF_StringWrapper\<close>

text \<open>
  The wrapper's observable effects are the calls it makes: the release callback
  \<open>string.dtor(&string)\<close>, recorded with the callback and the string it is given,
  and the reference count operations on \<open>obj\<close>.
\<close>

record RF_StringWrapper =
  string :: RF_String
  obj :: "nat option"

datatype event = Call_dtor nat RF_String | Py_INCREF nat | Py_DECREF nat

text \<open>
  Wrapper objects live in a store, by address, so that \<open>&other != this\<close> can be
  asked; an address with no wrapper is storage that holds no live object.
\<close>

record wrappers =
  objs :: "nat \<Rightarrow> RF_StringWrapper option"
  events :: "event list"

definition null_string :: RF_String where
  "null_string = \<lparr>dtor = None, kind = 0, data = 0, length' = 0, context' = None\<rparr>"

definition Py_XINCREF :: "nat option \<Rightarrow> event list \<Rightarrow> event list" where
  "Py_XINCREF ob tr = (case ob of None \<Rightarrow> tr | Some p \<Rightarrow> tr @ [Py_INCREF p])"

definition Py_XDECREF :: "nat option \<Rightarrow> event list \<Rightarrow> event list" where
  "Py_XDECREF ob tr = (case ob of None \<Rightarrow> tr | Some p \<Rightarrow> tr @ [Py_DECREF p])"

text \<open>\<open>if (string.dtor) { string.dtor(&string); }\<close>\<close>

definition call_dtor :: "RF_String \<Rightarrow> event list \<Rightarrow> event list" where
  "call_dtor str tr = (case dtor str of None \<Rightarrow> tr | Some d \<Rightarrow> tr @ [Call_dtor d str])"

text \<open>The three constructors from values; each builds a wrapper in unused storage.\<close>

definition RF_StringWrapper_default :: "nat \<Rightarrow> wrappers \<Rightarrow> wrappers outcome" where
  "RF_StringWrapper_default this st =
     (case objs st this of
        Some w \<Rightarrow> Undefined
      | None \<Rightarrow> Returns (st\<lparr>objs := (objs st)(this \<mapsto> \<lparr>string = null_string, obj = None\<rparr>)\<rparr>))"

definition RF_StringWrapper_string :: "nat \<Rightarrow> RF_String \<Rightarrow> wrappers \<Rightarrow> wrappers outcome" where
  "RF_StringWrapper_string this string' st =
     (case objs st this of
        Some w \<Rightarrow> Undefined
      | None \<Rightarrow> Returns (st\<lparr>objs := (objs st)(this \<mapsto> \<lparr>string = string', obj = None\<rparr>)\<rparr>))"

definition RF_StringWrapper_string_obj ::
  "nat \<Rightarrow> RF_String \<Rightarrow> nat option \<Rightarrow> wrappers \<Rightarrow> wrappers outcome" where
  "RF_StringWrapper_string_obj this string' ob st =
     (case objs st this of
        Some w \<Rightarrow> Undefined
      | None \<Rightarrow> Returns (st\<lparr>objs := (objs st)(this \<mapsto> \<lparr>string = string', obj = ob\<rparr>),
                             events := Py_XINCREF ob (events st)\<rparr>))"

text \<open>The friend \<open>swap\<close> exchanges \<open>string\<close> and \<open>obj\<close> of two live wrappers.\<close>

definition swap_wrappers :: "nat \<Rightarrow> nat \<Rightarrow> wrappers \<Rightarrow> wrappers outcome" where
  "swap_wrappers first second st =
     (case (objs st first, objs st second) of
        (Some w1, Some w2) \<Rightarrow> Returns (st\<lparr>objs := (objs st)(first \<mapsto> w2, second \<mapsto> w1)\<rparr>)
      | _ \<Rightarrow> Undefined)"

text \<open>
  The move constructor delegates to the default constructor and swaps; \<open>other\<close>
  refers to a live wrapper when the constructor is entered.
\<close>

definition RF_StringWrapper_move :: "nat \<Rightarrow> nat \<Rightarrow> wrappers \<Rightarrow> wrappers outcome" where
  "RF_StringWrapper_move this other st =
     (case objs st other of
        None \<Rightarrow> Undefined
      | Some w \<Rightarrow>
          (case RF_StringWrapper_default this st of
             Returns st1 \<Rightarrow> swap_wrappers this other st1
           | Terminates \<Rightarrow> Terminates
           | Undefined \<Rightarrow> Undefined))"

text \<open>The move assignment operator, with its guard \<open>&other != this\<close>.\<close>

definition move_assign :: "nat \<Rightarrow> nat \<Rightarrow> wrappers \<Rightarrow> wrappers outcome" where
  "move_assign this other st =
     (case (objs st this, objs st other) of
        (Some t, Some oth) \<Rightarrow>
          if other \<noteq> this then
            Returns (st\<lparr>objs := (objs st)(this \<mapsto> oth,
                                           other \<mapsto> \<lparr>string = null_string, obj = None\<rparr>),
                       events := Py_XDECREF (obj t) (call_dtor (string t) (events st))\<rparr>)
          else Returns st
      | _ \<Rightarrow> Undefined)"

text \<open>The destructor; it ends the lifetime of the object at \<open>this\<close>.\<close>

definition RF_StringWrapper_destroy :: "nat \<Rightarrow> wrappers \<Rightarrow> wrappers outcome" where
  "RF_StringWrapper_destroy this st =
     (case objs st this of
        None \<Rightarrow> Undefined
      | Some w \<Rightarrow> Returns (st\<lparr>objs := (objs st)(this := None),
                             events := Py_XDECREF (obj w) (call_dtor (string w) (events st))\<rparr>))"

text \<open>
  A client of the wrapper is a sequence of these operations; \<open>run\<close> performs them
  in order and stops at the first one that is undefined.
\<close>

datatype wrapper_op =
    Default_construct nat
  | Move_construct nat nat
  | Move_assign nat nat
  | Destroy nat

fun step :: "wrapper_op \<Rightarrow> wrappers \<Rightarrow> wrappers outcome" where
  "step (Default_construct a) st = RF_StringWrapper_default a st"
| "step (Move_construct a b) st = RF_StringWrapper_move a b st"
| "step (Move_assign a b) st = move_assign a b st"
| "step (Destroy a) st = RF_StringWrapper_destroy a st"

fun run :: "wrapper_op list \<Rightarrow> wrappers \<Rightarrow> wrappers outcome" where
  "run [] st = Returns st"
| "run (x # xs) st =
     (case step x st of
        Returns st1 \<Rightarrow> run xs st1
      | Terminates \<Rightarrow> Terminates
      | Undefined \<Rightarrow> Undefined)"

text \<open>The calls of release callbacks in a trace, and the wrappers that hold one.\<close>

fun is_release :: "event \<Rightarrow> bool" where
  "is_release (Call_dtor d str) = True"
| "is_release (Py_INCREF p) = False"
| "is_release (Py_DECREF p) = False"

definition releases :: "wrappers \<Rightarrow> event list" where
  "releases st = filter is_release (events st)"

definition holds_release :: "wrappers \<Rightarrow> nat \<Rightarrow> bool" where
  "holds_release st a = (case objs st a of None \<Rightarrow> False | Some w \<Rightarrow> dtor (string w) \<noteq> None)"

text \<open>
  The invariant of a store in which one release right exists, for the string \<open>s0\<close>
  with callback \<open>d\<close>: either nothing has been released and one live wrapper holds
  \<open>s0\<close>, and no other wrapper holds a callback; or \<open>d\<close> has been called once, on
  \<open>s0\<close>, and no wrapper holds a callback any more.
\<close>

definition release_right :: "nat \<Rightarrow> RF_String \<Rightarrow> wrappers \<Rightarrow> bool" where
  "release_right d s0 st =
     ((releases st = [] \<and>
       (\<exists>h w. objs st h = Some w \<and> string w = s0 \<and> (\<forall>a. holds_release st a \<longrightarrow> a = h))) \<or>
      (releases st = [Call_dtor d s0] \<and> (\<forall>a. \<not> holds_release st a)))"

subsection \<open>Python strings\<close>

text \<open>
  What the header asks of a \<open>PyObject*\<close>: whether it is a bytes object or a
  unicode object, and then its buffer address and its size. A bytes object is its
  buffer address and its bytes. A unicode object is the result \<open>PyUnicode_READY\<close>
  gives for it (0, or -1 when the conversion to the canonical form fails), its
  \<open>PyUnicode_KIND\<close>, its buffer address and its code points. \<open>PyOther\<close> is any
  other object.
\<close>

datatype py_object =
    PyBytes nat "nat list"
  | PyUnicode int nat nat "nat list"
  | PyOther

fun PyBytes_Check :: "py_object \<Rightarrow> bool" where
  "PyBytes_Check (PyBytes a bs) = True"
| "PyBytes_Check (PyUnicode r k a us) = False"
| "PyBytes_Check PyOther = False"

fun PyUnicode_Check :: "py_object \<Rightarrow> bool" where
  "PyUnicode_Check (PyBytes a bs) = False"
| "PyUnicode_Check (PyUnicode r k a us) = True"
| "PyUnicode_Check PyOther = False"

definition PyUnicode_1BYTE_KIND :: nat where "PyUnicode_1BYTE_KIND = 1"
definition PyUnicode_2BYTE_KIND :: nat where "PyUnicode_2BYTE_KIND = 2"
definition PyUnicode_4BYTE_KIND :: nat where "PyUnicode_4BYTE_KIND = 4"

definition PYTHON_VERSION :: "int \<Rightarrow> int \<Rightarrow> int \<Rightarrow> int" where
  "PYTHON_VERSION major minor micro =
     or (or (push_bit 24 major) (push_bit 16 minor)) (push_bit 8 micro)"

text \<open>
  \<open>validate_string\<close>; \<open>PY_VERSION_HEX\<close> is the version the header is compiled
  against, which decides whether the call of \<open>PyUnicode_READY\<close> is compiled in.
\<close>

definition validate_string :: "int \<Rightarrow> py_object \<Rightarrow> string \<Rightarrow> cpp_exn + unit" where
  "validate_string PY_VERSION_HEX py_str err =
     (case py_str of
        PyBytes a bs \<Rightarrow> Inr ()
      | PyUnicode ready k a us \<Rightarrow>
          if PY_VERSION_HEX < PYTHON_VERSION 3 10 0 \<and> ready \<noteq> 0
          then Inl (Exn Std_runtime_error [])
          else Inr ()
      | PyOther \<Rightarrow> Inl (Exn PythonTypeError err))"

text \<open>
  \<open>convert_string\<close> does no check of its own: for an object that is not bytes it
  reads \<open>PyUnicode_KIND\<close>, which is undefined on an object that is not unicode.
\<close>

definition convert_string :: "py_object \<Rightarrow> RF_String outcome" where
  "convert_string py_str =
     (case py_str of
        PyBytes a bs \<Rightarrow>
          Returns \<lparr>dtor = None, kind = RF_UINT8, data = a, length' = length bs,
                   context' = None\<rparr>
      | PyUnicode ready k a us \<Rightarrow>
          Returns \<lparr>dtor = None,
                   kind = (if k = PyUnicode_1BYTE_KIND then RF_UINT8
                           else if k = PyUnicode_2BYTE_KIND then RF_UINT16
                           else RF_UINT32),
                   data = a, length' = length us, context' = None\<rparr>
      | PyOther \<Rightarrow> Undefined)"

subsection \<open>The type-erased scorer\<close>

text \<open>
  The functions an \<open>RF_ScorerFunc\<close> points to are instances of the templates
  \<open>scorer_func_wrapper_f64\<close> and \<open>scorer_deinit\<close> at \<open>CachedScorer<Sentence>\<close>,
  where \<open>Sentence\<close> is a pointer to the element type the dispatch chose.
\<close>

datatype fn_ptr = Scorer_func_wrapper_f64 elem_type | Scorer_deinit elem_type

record RF_ScorerFunc =
  sf_context :: nat
  sf_call :: "fn_ptr option"
  sf_dtor :: "fn_ptr option"

definition operator_new :: "'sc world \<Rightarrow> (cpp_exn + nat) \<times> 'sc world" where
  "operator_new w =
     (if next_addr w < capacity w
      then (Inr (next_addr w), w\<lparr>next_addr := Suc (next_addr w), allocs := Suc (allocs w)\<rparr>)
      else (Inl (Exn Std_bad_alloc ''std::bad_alloc''), w))"

text \<open>
  Constructing \<open>std::logic_error(msg)\<close> copies the message into storage it takes
  from \<open>operator new\<close>, one call; when there is none, \<open>std::bad_alloc\<close> leaves
  the constructor and is the exception thrown. The result is the exception that
  the \<open>throw\<close> expression raises. The storage goes back when the exception object
  is destroyed, at the end of the handler.
\<close>

definition std_logic_error :: "string \<Rightarrow> 'sc world \<Rightarrow> cpp_exn \<times> 'sc world" where
  "std_logic_error msg w =
     (case operator_new w of
        (Inl exn, w1) \<Rightarrow> (exn, w1)
      | (Inr p, w1) \<Rightarrow> (Exn Std_logic_error msg, w1))"

text \<open>
  \<open>get_ScorerContext_f64\<close>: \<open>CachedScorer\<close> is the constructor of the algorithm
  class, applied to the range and the construction arguments; it may throw. The
  new-expression obtains storage first and gives it back if the constructor throws.
\<close>

definition get_ScorerContext_f64 ::
  "(typed_ptr \<Rightarrow> typed_ptr \<Rightarrow> ('sc world, 'sc) eff) \<Rightarrow> typed_ptr \<Rightarrow> typed_ptr \<Rightarrow>
   ('sc world, RF_ScorerFunc) eff" where
  "get_ScorerContext_f64 CachedScorer str last' w =
     (case operator_new w of
        (Inl exn, w1) \<Rightarrow> (Inl exn, w1)
      | (Inr p, w1) \<Rightarrow>
          (case CachedScorer str last' w1 of
             (Inl exn, w2) \<Rightarrow> (Inl exn, w2)
           | (Inr scorer, w2) \<Rightarrow>
               (Inr \<lparr>sf_context = p,
                     sf_call = Some (Scorer_func_wrapper_f64 (elem_of str)),
                     sf_dtor = Some (Scorer_deinit (elem_of str))\<rparr>,
                w2\<lparr>heap := (heap w2)(p \<mapsto> scorer)\<rparr>)))"

text \<open>
  The handler both boundary functions share, for the exception \<open>exn\<close> they caught:
  take the interpreter lock, translate, restore the lock.
\<close>

definition catch_all :: "cpp_exn \<Rightarrow> 'sc world \<Rightarrow> 'sc world outcome" where
  "catch_all exn w =
     (case PyGILState_Ensure w of
        (gilstate_save, w1) \<Rightarrow>
          (case CppExn2PyErr (Some exn) w1 of
             Returns w2 \<Rightarrow> Returns (PyGILState_Release gilstate_save w2)
           | Terminates \<Rightarrow> Terminates
           | Undefined \<Rightarrow> Undefined))"

text \<open>
  The \<open>try\<close> block of \<open>scorer_init_f64\<close>. \<open>strings\<close> is the array the pointer
  argument points to; \<open>*strings\<close> is its first element and reading it from an
  empty array is undefined. The \<open>throw\<close> for a count other than 1 constructs its
  \<open>std::logic_error\<close> first.
\<close>

definition scorer_init_f64_try ::
  "(typed_ptr \<Rightarrow> typed_ptr \<Rightarrow> ('sc world, 'sc) eff) \<Rightarrow> nat \<Rightarrow> RF_String list \<Rightarrow>
   'sc world \<Rightarrow> ((cpp_exn + RF_ScorerFunc) \<times> 'sc world) outcome" where
  "scorer_init_f64_try CachedScorer str_count strings w =
     (if str_count \<noteq> 1
      then Returns
        (case std_logic_error ''Only str_count == 1 supported'' w of
           (exn, w1) \<Rightarrow> throw exn w1)
      else case strings of
        [] \<Rightarrow> Undefined
      | str # rest \<Rightarrow>
          Returns (visit str (\<lambda>first last. get_ScorerContext_f64 CachedScorer first last) w))"

text \<open>
  \<open>scorer_init_f64\<close>: \<open>self\<close> is the value of the slot \<open>*self\<close> before the call;
  the result is the flag returned, the value of the slot after the call, and the
  state.
\<close>

definition scorer_init_f64 ::
  "(typed_ptr \<Rightarrow> typed_ptr \<Rightarrow> ('sc world, 'sc) eff) \<Rightarrow> RF_ScorerFunc \<Rightarrow> nat \<Rightarrow>
   RF_String list \<Rightarrow> 'sc world \<Rightarrow> (bool \<times> RF_ScorerFunc \<times> 'sc world) outcome" where
  "scorer_init_f64 CachedScorer self str_count strings w =
     (case scorer_init_f64_try CachedScorer str_count strings w of
        Returns (Inr ctx, w1) \<Rightarrow> Returns (True, ctx, w1)
      | Returns (Inl exn, w1) \<Rightarrow>
          (case catch_all exn w1 of
             Returns w2 \<Rightarrow> Returns (False, self, w2)
           | Terminates \<Rightarrow> Terminates
           | Undefined \<Rightarrow> Undefined)
      | Terminates \<Rightarrow> Terminates
      | Undefined \<Rightarrow> Undefined)"


subsection \<open>Sample inputs\<close>

text \<open>
  A state with no error pending, the lock not held and room for three
  allocations, and the same state after an earlier call has failed.
\<close>

definition sample_world :: "nat world" where
  "sample_world =
     \<lparr>pending = None, gil_held = False, heap = (\<lambda>a. None), next_addr = 1, capacity = 4,
      allocs = 0\<rparr>"

definition failing_world :: "nat world" where
  "failing_world = sample_world\<lparr>pending := Some (PyExc_ValueError, ''first failure'')\<rparr>"

text \<open>The sample state with no storage left for \<open>operator new\<close>.\<close>

definition exhausted_world :: "nat world" where
  "exhausted_world = sample_world\<lparr>capacity := 1\<rparr>"

text \<open>
  A buffer of three elements at address 4096 and one of five elements at 8192,
  with a width tag to choose, and callbacks that return the element counts they
  see and count their own calls in the state.
\<close>

definition sample_string :: "RF_StringType \<Rightarrow> RF_String" where
  "sample_string k = \<lparr>dtor = None, kind = k, data = 4096, length' = 3, context' = None\<rparr>"

definition other_string :: "RF_StringType \<Rightarrow> RF_String" where
  "other_string k = \<lparr>dtor = None, kind = k, data = 8192, length' = 5, context' = None\<rparr>"


definition count_both :: "typed_ptr \<Rightarrow> typed_ptr \<Rightarrow> typed_ptr \<Rightarrow> typed_ptr \<Rightarrow> (nat, nat \<times> nat) eff" where
  "count_both first1 last1 first2 last2 =
     (\<lambda>calls. (Inr (ptr_diff last1 first1, ptr_diff last2 first2), Suc calls))"

text \<open>
  A wrapper that owns a buffer with release callback 7 and owner object 9, alone in
  the store at address 0, and a client that moves it around and destroys every
  wrapper it made.
\<close>

definition owned_string :: RF_String where
  "owned_string = \<lparr>dtor = Some 7, kind = RF_UINT8, data = 4096, length' = 3, context' = None\<rparr>"

definition owning_wrapper :: RF_StringWrapper where
  "owning_wrapper = \<lparr>string = owned_string, obj = Some 9\<rparr>"

definition one_wrapper :: wrappers where
  "one_wrapper = \<lparr>objs = Map.empty(0 \<mapsto> owning_wrapper), events = []\<rparr>"

definition sample_ops :: "wrapper_op list" where
  "sample_ops = [Move_construct 1 0, Default_construct 2, Move_assign 2 1, Move_assign 2 2,
     Destroy 0, Destroy 1, Destroy 2]"


definition sample_scorer_func :: RF_ScorerFunc where
  "sample_scorer_func =
     \<lparr>sf_context = 1, sf_call = Some (Scorer_func_wrapper_f64 Uint8_t),
      sf_dtor = Some (Scorer_deinit Uint8_t)\<rparr>"


definition sample_CachedScorer :: "typed_ptr \<Rightarrow> typed_ptr \<Rightarrow> (nat world, nat) eff" where
  "sample_CachedScorer first last' = (\<lambda>w. (Inr (ptr_diff last' first), w))"

section \<open>The error bridge\<close>

text \<open>
  The translation by class, with no error pending: the handlers are tried in the
  order of the source, and no class is caught by a handler placed before its own.
\<close>

lemma CppExn2PyErr_by_class:
  assumes "pending w = None"
  shows "CppExn2PyErr (Some (Exn c msg)) w =
           Returns (PyErr_SetString
             (case c of
                Std_exception \<Rightarrow> PyExc_RuntimeError
              | Std_bad_alloc \<Rightarrow> PyExc_MemoryError
              | Std_bad_array_new_length \<Rightarrow> PyExc_MemoryError
              | Std_bad_cast \<Rightarrow> PyExc_TypeError
              | Std_bad_typeid \<Rightarrow> PyExc_TypeError
              | PythonTypeError \<Rightarrow> PyExc_TypeError
              | Std_logic_error \<Rightarrow> PyExc_RuntimeError
              | Std_domain_error \<Rightarrow> PyExc_ValueError
              | Std_invalid_argument \<Rightarrow> PyExc_ValueError
              | Std_length_error \<Rightarrow> PyExc_RuntimeError
              | Std_out_of_range \<Rightarrow> PyExc_IndexError
              | Std_runtime_error \<Rightarrow> PyExc_RuntimeError
              | Std_range_error \<Rightarrow> PyExc_ArithmeticError
              | Std_overflow_error \<Rightarrow> PyExc_OverflowError
              | Std_underflow_error \<Rightarrow> PyExc_ArithmeticError
              | Std_system_error \<Rightarrow> PyExc_RuntimeError
              | Std_ios_base_failure \<Rightarrow> PyExc_IOError) msg w)"
  using assms by (cases c) (simp_all add: CppExn2PyErr_def PyErr_Occurred_def)

lemma CppExn2PyErr_foreign:
  assumes "pending w = None"
  shows "CppExn2PyErr (Some Foreign) w =
           Returns (PyErr_SetString PyExc_RuntimeError ''Unknown exception'' w)"
  using assms by (simp add: CppExn2PyErr_def PyErr_Occurred_def)

lemma CppExn2PyErr_pending:
  assumes "pending w = Some e"
  shows "CppExn2PyErr current w = Returns w"
  using assms by (simp add: CppExn2PyErr_def PyErr_Occurred_def)

text \<open>The translation does not depend on the rest of the state.\<close>

lemma CppExn2PyErr_translation:
  "\<exists>ty msg. \<forall>w :: 'sc world. pending w = None \<longrightarrow>
     CppExn2PyErr (Some exn) w = Returns (PyErr_SetString ty msg w)"
proof (cases exn)
  case (Exn c m)
  then show ?thesis
    using CppExn2PyErr_by_class [where c = c and msg = m] by blast
next
  case Foreign
  then show ?thesis
    using CppExn2PyErr_foreign by blast
qed


lemma catch_all_bridge:
  assumes "CppExn2PyErr (Some exn) w = Returns w2"
  shows "catch_all exn w = Returns w2"
proof (cases "pending w")
  case None
  obtain ty msg where tr: "\<And>w :: 'a world. pending w = None \<Longrightarrow>
      CppExn2PyErr (Some exn) w = Returns (PyErr_SetString ty msg w)"
    using CppExn2PyErr_translation [of exn] by blast
  have w2: "w2 = PyErr_SetString ty msg w"
    using tr [OF None] assms by simp
  have "pending (w\<lparr>gil_held := True\<rparr>) = None"
    using None by simp
  then have "CppExn2PyErr (Some exn) (w\<lparr>gil_held := True\<rparr>) =
      Returns (PyErr_SetString ty msg (w\<lparr>gil_held := True\<rparr>))"
    by (rule tr)
  then show ?thesis
    by (simp add: catch_all_def PyGILState_Ensure_def PyGILState_Release_def w2
        PyErr_SetString_def)
next
  case (Some e)
  then have "pending (w\<lparr>gil_held := True\<rparr>) = Some e"
    by simp
  then have "CppExn2PyErr (Some exn) (w\<lparr>gil_held := True\<rparr>) = Returns (w\<lparr>gil_held := True\<rparr>)"
    by (rule CppExn2PyErr_pending)
  moreover have "w2 = w"
    using CppExn2PyErr_pending [OF Some] assms by simp
  ultimately show ?thesis
    by (simp add: catch_all_def PyGILState_Ensure_def PyGILState_Release_def)
qed

text \<open>
  Claim C2. Whatever exception is being handled, if the interpreter already has an
  error pending, \<open>CppExn2PyErr\<close> returns with the state exactly as it was: the
  exception is dropped and the pending error, type and message, stays. The state
  changes only if no error was pending.
\<close>

theorem CppExn2PyErr_first_failure_wins:
  "(pending w = Some err \<longrightarrow> CppExn2PyErr current w = Returns w) \<and>
   (CppExn2PyErr current w = Returns w' \<and> w' \<noteq> w \<longrightarrow> pending w = None)"
  by (cases "pending w") (auto simp: CppExn2PyErr_def PyErr_Occurred_def)

theorem CppExn2PyErr_first_failure_wins_witness:
  "pending failing_world = Some (PyExc_ValueError, ''first failure'') \<and>
   CppExn2PyErr (Some (Exn Std_out_of_range ''index'')) failing_world = Returns failing_world \<and>
   CppExn2PyErr (Some (Exn Std_out_of_range ''index'')) sample_world =
     Returns (sample_world\<lparr>pending := Some (PyExc_IndexError, ''index'')\<rparr>) \<and>
   sample_world\<lparr>pending := Some (PyExc_IndexError, ''index'')\<rparr> \<noteq> sample_world \<and>
   pending sample_world = None"
  using CppExn2PyErr_first_failure_wins
    [of failing_world "(PyExc_ValueError, ''first failure'')" "Some (Exn Std_out_of_range ''index'')"]
    CppExn2PyErr_first_failure_wins
    [of sample_world _ "Some (Exn Std_out_of_range ''index'')"
        "sample_world\<lparr>pending := Some (PyExc_IndexError, ''index'')\<rparr>"]
  by (simp add: failing_world_def sample_world_def CppExn2PyErr_def PyErr_Occurred_def
      PyErr_SetString_def)

text \<open>
  Claim C3, as the code has it. With no error pending, the exception being handled
  is translated by its class, and the Python error carries the string of its
  \<open>what()\<close>: \<open>bad_alloc\<close> (and what derives from it) gives \<open>MemoryError\<close>;
  \<open>bad_cast\<close>, \<open>bad_typeid\<close> and \<open>PythonTypeError\<close> give \<open>TypeError\<close>;
  \<open>domain_error\<close> and \<open>invalid_argument\<close> give \<open>ValueError\<close>;
  \<open>ios_base::failure\<close> gives \<open>IOError\<close>; \<open>out_of_range\<close> gives \<open>IndexError\<close>;
  \<open>overflow_error\<close> gives \<open>OverflowError\<close>, while \<open>range_error\<close> and
  \<open>underflow_error\<close> give \<open>ArithmeticError\<close>; every other class derived from
  \<open>std::exception\<close> gives \<open>RuntimeError\<close>. A thrown object that is not a
  \<open>std::exception\<close> gives \<open>RuntimeError\<close> too, with the fixed message
  \<open>Unknown exception\<close>.
\<close>

theorem CppExn2PyErr_table:
  assumes "pending w = None"
  shows "CppExn2PyErr (Some (Exn c msg)) w =
           Returns (PyErr_SetString
             (case c of
                Std_exception \<Rightarrow> PyExc_RuntimeError
              | Std_bad_alloc \<Rightarrow> PyExc_MemoryError
              | Std_bad_array_new_length \<Rightarrow> PyExc_MemoryError
              | Std_bad_cast \<Rightarrow> PyExc_TypeError
              | Std_bad_typeid \<Rightarrow> PyExc_TypeError
              | PythonTypeError \<Rightarrow> PyExc_TypeError
              | Std_logic_error \<Rightarrow> PyExc_RuntimeError
              | Std_domain_error \<Rightarrow> PyExc_ValueError
              | Std_invalid_argument \<Rightarrow> PyExc_ValueError
              | Std_length_error \<Rightarrow> PyExc_RuntimeError
              | Std_out_of_range \<Rightarrow> PyExc_IndexError
              | Std_runtime_error \<Rightarrow> PyExc_RuntimeError
              | Std_range_error \<Rightarrow> PyExc_ArithmeticError
              | Std_overflow_error \<Rightarrow> PyExc_OverflowError
              | Std_underflow_error \<Rightarrow> PyExc_ArithmeticError
              | Std_system_error \<Rightarrow> PyExc_RuntimeError
              | Std_ios_base_failure \<Rightarrow> PyExc_IOError) msg w) \<and>
         CppExn2PyErr (Some Foreign) w =
           Returns (PyErr_SetString PyExc_RuntimeError ''Unknown exception'' w)"
  by (simp add: CppExn2PyErr_by_class [OF assms] CppExn2PyErr_foreign [OF assms])

theorem CppExn2PyErr_table_witness:
  "pending sample_world = None \<and>
   CppExn2PyErr (Some (Exn Std_overflow_error ''too big'')) sample_world =
     Returns (sample_world\<lparr>pending := Some (PyExc_OverflowError, ''too big'')\<rparr>) \<and>
   CppExn2PyErr (Some Foreign) sample_world =
     Returns (sample_world\<lparr>pending := Some (PyExc_RuntimeError, ''Unknown exception'')\<rparr>)"
  using CppExn2PyErr_table [of sample_world Std_overflow_error "''too big''"]
  by (simp add: sample_world_def PyErr_SetString_def)

text \<open>
  Claim C3 as stated gives the unrecognized failure a category of its own and the
  three arithmetic failures one category. In the code a foreign exception installs
  exactly the error that \<open>std::runtime_error("Unknown exception")\<close> installs, and
  \<open>overflow_error\<close> and \<open>range_error\<close> with the same message install different
  errors.
\<close>

theorem CppExn2PyErr_categories_counterexample:
  "CppExn2PyErr (Some Foreign) sample_world =
     CppExn2PyErr (Some (Exn Std_runtime_error ''Unknown exception'')) sample_world \<and>
   CppExn2PyErr (Some (Exn Std_overflow_error ''x'')) sample_world \<noteq>
     CppExn2PyErr (Some (Exn Std_range_error ''x'')) sample_world"
  by (simp add: sample_world_def CppExn2PyErr_def PyErr_Occurred_def PyErr_SetString_def)

text \<open>
  Claim C9, as the code has it. Called with no error pending and no exception
  being handled, \<open>CppExn2PyErr\<close> reaches \<open>throw;\<close> with nothing to rethrow: the
  call ends in \<open>std::terminate\<close> and installs no error.
\<close>

theorem CppExn2PyErr_no_exception:
  "pending w = None \<Longrightarrow> CppExn2PyErr None w = Terminates"
  by (simp add: CppExn2PyErr_def PyErr_Occurred_def)

theorem CppExn2PyErr_no_exception_witness:
  "pending sample_world = None \<and> CppExn2PyErr None sample_world = Terminates"
  using CppExn2PyErr_no_exception [of sample_world]
  by (simp add: sample_world_def)

text \<open>
  Claim C9 as stated expects the error of the last handler, \<open>RuntimeError\<close> with
  \<open>Unknown exception\<close>, to be installed; the call does not return that state.
\<close>

theorem CppExn2PyErr_no_exception_counterexample:
  "CppExn2PyErr None sample_world \<noteq>
     Returns (PyErr_SetString PyExc_RuntimeError ''Unknown exception'' sample_world)"
  by (simp add: sample_world_def CppExn2PyErr_def PyErr_Occurred_def)

section \<open>The width dispatch\<close>

lemma map_of_LIST_OF_CASES:
  "map_of LIST_OF_CASES k =
     (if k = RF_UINT8 then Some Uint8_t
      else if k = RF_UINT16 then Some Uint16_t
      else if k = RF_UINT32 then Some Uint32_t
      else if k = RF_UINT64 then Some Uint64_t
      else None)"
  by (simp add: LIST_OF_CASES_def RF_UINT8_def RF_UINT16_def RF_UINT32_def RF_UINT64_def)


lemma visit_known:
  assumes "map_of LIST_OF_CASES (kind str) = Some ty"
  shows "visit str f = f (Ptr ty (data str)) (Ptr ty (data str + length' str * sizeof ty))"
  using assms by (simp add: visit_def)

lemma visit_unknown:
  assumes "map_of LIST_OF_CASES (kind str) = None"
  shows "visit str f = throw (Exn Std_logic_error ''Invalid string type'')"
  using assms by (simp add: visit_def)

lemma tag_pairs:
  "(k, ty) \<in> {(RF_UINT8, Uint8_t), (RF_UINT16, Uint16_t), (RF_UINT32, Uint32_t),
               (RF_UINT64, Uint64_t)} \<Longrightarrow> map_of LIST_OF_CASES k = Some ty"
  by (auto simp: map_of_LIST_OF_CASES RF_UINT8_def RF_UINT16_def RF_UINT32_def RF_UINT64_def)




lemma map_of_LIST_OF_PAIRS:
  "map_of LIST_OF_PAIRS (k1, k2) =
     (case (map_of LIST_OF_CASES k1, map_of LIST_OF_CASES k2) of
        (Some ty1, Some ty2) \<Rightarrow> Some (ty1, ty2)
      | _ \<Rightarrow> None)"
  by (simp add: LIST_OF_PAIRS_def LIST_OF_CASES_def RF_UINT8_def RF_UINT16_def RF_UINT32_def
      RF_UINT64_def)

lemma length_LIST_OF_PAIRS: "length LIST_OF_PAIRS = 16"
  by (simp add: LIST_OF_PAIRS_def LIST_OF_CASES_def)

lemma visitor_known:
  assumes "map_of LIST_OF_CASES (kind str1) = Some ty1"
    and "map_of LIST_OF_CASES (kind str2) = Some ty2"
  shows "visitor str1 str2 f =
           f (Ptr ty1 (data str1)) (Ptr ty1 (data str1 + length' str1 * sizeof ty1))
             (Ptr ty2 (data str2)) (Ptr ty2 (data str2 + length' str2 * sizeof ty2))"
  by (simp add: visitor_def visit_known [OF assms(1)] visit_known [OF assms(2)])

lemma visitor_eq_by_pairs: "visitor str1 str2 f = visitor_by_pairs str1 str2 f"
proof (cases "map_of LIST_OF_CASES (kind str2)")
  case None
  then show ?thesis
    by (simp add: visitor_def visit_unknown visitor_by_pairs_def map_of_LIST_OF_PAIRS
        split: option.split)
next
  case s2: (Some ty2)
  show ?thesis
  proof (cases "map_of LIST_OF_CASES (kind str1)")
    case None
    then show ?thesis
      by (simp add: visitor_def visit_known [OF s2] visit_unknown visitor_by_pairs_def
          map_of_LIST_OF_PAIRS)
  next
    case s1: (Some ty1)
    show ?thesis
      by (simp add: visitor_known [OF s1 s2] visitor_by_pairs_def map_of_LIST_OF_PAIRS s1 s2)
  qed
qed

text \<open>
  Claim C6. \<open>visitor\<close> is \<open>visit\<close> on the second buffer around \<open>visit\<close> on the
  first. It agrees, on every input, with the dispatch that looks the pair of tags
  up in the table of all sixteen pairs. When both tags are recognized it is one call
  of the callback with the range of the first buffer followed by the range of the
  second, and a logging callback has logged exactly that call.
\<close>

theorem visitor_composes:
  "visitor str1 str2 f =
     visit str2 (\<lambda>first last. visit str1 (\<lambda>first1 last1. f first1 last1 first last)) \<and>
   visitor str1 str2 f = visitor_by_pairs str1 str2 f \<and>
   length LIST_OF_PAIRS = 16 \<and>
   ((kind str1, ty1) \<in> {(RF_UINT8, Uint8_t), (RF_UINT16, Uint16_t), (RF_UINT32, Uint32_t),
                         (RF_UINT64, Uint64_t)} \<and>
    (kind str2, ty2) \<in> {(RF_UINT8, Uint8_t), (RF_UINT16, Uint16_t), (RF_UINT32, Uint32_t),
                         (RF_UINT64, Uint64_t)} \<longrightarrow>
      visitor str1 str2 f =
        f (Ptr ty1 (data str1)) (Ptr ty1 (data str1 + length' str1 * sizeof ty1))
          (Ptr ty2 (data str2)) (Ptr ty2 (data str2 + length' str2 * sizeof ty2)) \<and>
      visitor str1 str2
        (\<lambda>first1 last1 first last.
           logged [first1, last1, first, last] (f first1 last1 first last)) (log, s) =
        (fst (f (Ptr ty1 (data str1)) (Ptr ty1 (data str1 + length' str1 * sizeof ty1))
               (Ptr ty2 (data str2)) (Ptr ty2 (data str2 + length' str2 * sizeof ty2)) s),
         log @ [[Ptr ty1 (data str1), Ptr ty1 (data str1 + length' str1 * sizeof ty1),
                 Ptr ty2 (data str2), Ptr ty2 (data str2 + length' str2 * sizeof ty2)]],
         snd (f (Ptr ty1 (data str1)) (Ptr ty1 (data str1 + length' str1 * sizeof ty1))
               (Ptr ty2 (data str2)) (Ptr ty2 (data str2 + length' str2 * sizeof ty2)) s)))"
proof (intro conjI impI)
  show "visitor str1 str2 f =
     visit str2 (\<lambda>first last. visit str1 (\<lambda>first1 last1. f first1 last1 first last))"
    by (simp add: visitor_def)
  show "visitor str1 str2 f = visitor_by_pairs str1 str2 f"
    by (rule visitor_eq_by_pairs)
  show "length LIST_OF_PAIRS = 16"
    by (rule length_LIST_OF_PAIRS)
next
  assume known:
    "(kind str1, ty1) \<in> {(RF_UINT8, Uint8_t), (RF_UINT16, Uint16_t), (RF_UINT32, Uint32_t),
                         (RF_UINT64, Uint64_t)} \<and>
     (kind str2, ty2) \<in> {(RF_UINT8, Uint8_t), (RF_UINT16, Uint16_t), (RF_UINT32, Uint32_t),
                         (RF_UINT64, Uint64_t)}"
  have s1: "map_of LIST_OF_CASES (kind str1) = Some ty1"
    using known by (intro tag_pairs) simp
  have s2: "map_of LIST_OF_CASES (kind str2) = Some ty2"
    using known by (intro tag_pairs) simp
  show "visitor str1 str2 f =
        f (Ptr ty1 (data str1)) (Ptr ty1 (data str1 + length' str1 * sizeof ty1))
          (Ptr ty2 (data str2)) (Ptr ty2 (data str2 + length' str2 * sizeof ty2))"
    by (rule visitor_known [OF s1 s2])
  show "visitor str1 str2
        (\<lambda>first1 last1 first last.
           logged [first1, last1, first, last] (f first1 last1 first last)) (log, s) =
        (fst (f (Ptr ty1 (data str1)) (Ptr ty1 (data str1 + length' str1 * sizeof ty1))
               (Ptr ty2 (data str2)) (Ptr ty2 (data str2 + length' str2 * sizeof ty2)) s),
         log @ [[Ptr ty1 (data str1), Ptr ty1 (data str1 + length' str1 * sizeof ty1),
                 Ptr ty2 (data str2), Ptr ty2 (data str2 + length' str2 * sizeof ty2)]],
         snd (f (Ptr ty1 (data str1)) (Ptr ty1 (data str1 + length' str1 * sizeof ty1))
               (Ptr ty2 (data str2)) (Ptr ty2 (data str2 + length' str2 * sizeof ty2)) s))"
    by (simp add: visitor_known [OF s1 s2] logged_def split: prod.split)
qed

theorem visitor_composes_witness:
  "(kind (sample_string RF_UINT8), Uint8_t) \<in>
     {(RF_UINT8, Uint8_t), (RF_UINT16, Uint16_t), (RF_UINT32, Uint32_t), (RF_UINT64, Uint64_t)} \<and>
   (kind (other_string RF_UINT32), Uint32_t) \<in>
     {(RF_UINT8, Uint8_t), (RF_UINT16, Uint16_t), (RF_UINT32, Uint32_t), (RF_UINT64, Uint64_t)} \<and>
   visitor (sample_string RF_UINT8) (other_string RF_UINT32) count_both 0 = (Inr (3, 5), 1) \<and>
   visitor (sample_string RF_UINT8) (other_string RF_UINT32)
     (\<lambda>first1 last1 first last.
        logged [first1, last1, first, last] (count_both first1 last1 first last)) ([], 0) =
     (Inr (3, 5),
      [[Ptr Uint8_t 4096, Ptr Uint8_t 4099, Ptr Uint32_t 8192, Ptr Uint32_t 8212]], 1)"
  using visitor_composes
    [of "sample_string RF_UINT8" "other_string RF_UINT32" count_both Uint8_t Uint32_t "[]" 0,
     THEN conjunct2, THEN conjunct2, THEN conjunct2]
  by (simp add: sample_string_def other_string_def count_both_def RF_UINT8_def RF_UINT16_def
      RF_UINT32_def RF_UINT64_def)

section \<open>The ownership wrapper\<close>

lemma holds_null [simp]: "dtor null_string = None"
  by (simp add: null_string_def)

lemma destroy_live:
  assumes "objs st a = Some w"
  shows "RF_StringWrapper_destroy a st =
           Returns (st\<lparr>objs := (objs st)(a := None),
                      events := Py_XDECREF (obj w) (call_dtor (string w) (events st))\<rparr>)"
  using assms by (simp add: RF_StringWrapper_destroy_def)

lemma move_live:
  assumes "objs st b = Some w" and "objs st a = None"
  shows "RF_StringWrapper_move a b st =
           Returns (st\<lparr>objs := (objs st)(a \<mapsto> w, b \<mapsto> \<lparr>string = null_string, obj = None\<rparr>)\<rparr>)"
proof -
  have "a \<noteq> b" using assms by auto
  then show ?thesis
    using assms
    by (simp add: RF_StringWrapper_move_def RF_StringWrapper_default_def swap_wrappers_def)
qed

lemma move_assign_live:
  assumes "objs st a = Some t" and "objs st b = Some w" and "a \<noteq> b"
  shows "move_assign a b st =
           Returns (st\<lparr>objs := (objs st)(a \<mapsto> w, b \<mapsto> \<lparr>string = null_string, obj = None\<rparr>),
                      events := Py_XDECREF (obj t) (call_dtor (string t) (events st))\<rparr>)"
  using assms by (simp add: move_assign_def)

lemma move_assign_self:
  assumes "objs st a = Some w"
  shows "move_assign a a st = Returns st"
  using assms by (simp add: move_assign_def)

lemma releases_XDECREF: "filter is_release (Py_XDECREF ob tr) = filter is_release tr"
  by (simp add: Py_XDECREF_def split: option.split)

lemma releases_call_dtor:
  "filter is_release (call_dtor str tr) =
     filter is_release tr @ (case dtor str of None \<Rightarrow> [] | Some d \<Rightarrow> [Call_dtor d str])"
  by (simp add: call_dtor_def split: option.split)

lemma release_right_default:
  assumes "release_right d s0 st" and "RF_StringWrapper_default a st = Returns st1"
  shows "release_right d s0 st1"
proof -
  from assms(2) have fresh: "objs st a = None"
    and st1: "st1 = st\<lparr>objs := (objs st)(a \<mapsto> \<lparr>string = null_string, obj = None\<rparr>)\<rparr>"
    by (auto simp: RF_StringWrapper_default_def split: option.splits)
  have same: "holds_release st1 x = holds_release st x" for x
    using fresh by (simp add: st1 holds_release_def)
  have rel: "releases st1 = releases st"
    by (simp add: st1 releases_def)
  from assms(1) show ?thesis
    unfolding release_right_def same rel
  proof (elim disjE conjE exE)
    fix h w
    assume "releases st = []" "objs st h = Some w" "string w = s0"
      "\<forall>a. holds_release st a \<longrightarrow> a = h"
    moreover have "objs st1 h = Some w"
      using \<open>objs st h = Some w\<close> fresh by (auto simp: st1)
    ultimately show "releases st = [] \<and>
       (\<exists>h w. objs st1 h = Some w \<and> string w = s0 \<and> (\<forall>a. holds_release st a \<longrightarrow> a = h)) \<or>
       releases st = [Call_dtor d s0] \<and> (\<forall>a. \<not> holds_release st a)"
      by blast
  qed simp
qed

lemma release_right_destroy:
  assumes inv: "release_right d s0 st" and d: "dtor s0 = Some d"
    and run: "RF_StringWrapper_destroy a st = Returns st1"
  shows "release_right d s0 st1"
proof -
  from run obtain w where live: "objs st a = Some w"
    by (auto simp: RF_StringWrapper_destroy_def split: option.splits)
  from run have st1: "st1 = st\<lparr>objs := (objs st)(a := None),
      events := Py_XDECREF (obj w) (call_dtor (string w) (events st))\<rparr>"
    by (simp add: destroy_live [OF live])
  have rel: "releases st1 =
      releases st @ (case dtor (string w) of None \<Rightarrow> [] | Some d' \<Rightarrow> [Call_dtor d' (string w)])"
    by (simp add: st1 releases_def releases_XDECREF releases_call_dtor)
  have holds: "holds_release st1 x = (x \<noteq> a \<and> holds_release st x)" for x
    by (simp add: st1 holds_release_def)
  have holds_a: "holds_release st a = (dtor (string w) \<noteq> None)"
    by (simp add: holds_release_def live)
  from inv show ?thesis
    unfolding release_right_def
  proof (elim disjE conjE exE)
    fix h w0
    assume r: "releases st = []" and h: "objs st h = Some w0" and s0: "string w0 = s0"
      and only: "\<forall>x. holds_release st x \<longrightarrow> x = h"
    show "releases st1 = [] \<and>
        (\<exists>h w. objs st1 h = Some w \<and> string w = s0 \<and> (\<forall>a. holds_release st1 a \<longrightarrow> a = h)) \<or>
        releases st1 = [Call_dtor d s0] \<and> (\<forall>a. \<not> holds_release st1 a)"
    proof (cases "a = h")
      case True
      then have "w = w0" using live h by simp
      then have "releases st1 = [Call_dtor d s0]"
        by (simp add: rel r s0 d)
      moreover have "\<forall>x. \<not> holds_release st1 x"
        using only True by (auto simp: holds)
      ultimately show ?thesis by blast
    next
      case False
      then have "\<not> holds_release st a" using only by blast
      then have "releases st1 = []"
        by (simp add: rel r holds_a)
      moreover have "objs st1 h = Some w0"
        using False h by (simp add: st1)
      moreover have "\<forall>x. holds_release st1 x \<longrightarrow> x = h"
        using only by (simp add: holds)
      ultimately show ?thesis using s0 by blast
    qed
  next
    assume r: "releases st = [Call_dtor d s0]" and none: "\<forall>x. \<not> holds_release st x"
    then have "releases st1 = [Call_dtor d s0]"
      using holds_a by (simp add: rel)
    moreover have "\<forall>x. \<not> holds_release st1 x"
      using none by (simp add: holds)
    ultimately show "releases st1 = [] \<and>
        (\<exists>h w. objs st1 h = Some w \<and> string w = s0 \<and> (\<forall>a. holds_release st1 a \<longrightarrow> a = h)) \<or>
        releases st1 = [Call_dtor d s0] \<and> (\<forall>a. \<not> holds_release st1 a)"
      by blast
  qed
qed

lemma release_right_move:
  assumes inv: "release_right d s0 st" and d: "dtor s0 = Some d"
    and run: "RF_StringWrapper_move a b st = Returns st1"
  shows "release_right d s0 st1"
proof -
  from run have fresh: "objs st a = None"
    by (auto simp: RF_StringWrapper_move_def RF_StringWrapper_default_def split: option.splits)
  from run fresh obtain w where live: "objs st b = Some w"
    by (auto simp: RF_StringWrapper_move_def RF_StringWrapper_default_def swap_wrappers_def
        split: option.splits if_splits)
  have ab: "a \<noteq> b" using fresh live by auto
  from run have st1: "st1 = st\<lparr>objs := (objs st)(a \<mapsto> w,
      b \<mapsto> \<lparr>string = null_string, obj = None\<rparr>)\<rparr>"
    by (simp add: move_live [OF live fresh])
  have rel: "releases st1 = releases st"
    by (simp add: st1 releases_def)
  have holds: "holds_release st1 x =
      (if x = b then False else if x = a then holds_release st b else holds_release st x)" for x
    using ab by (simp add: st1 holds_release_def live)
  from inv show ?thesis
    unfolding release_right_def
  proof (elim disjE conjE exE)
    fix h w0
    assume r: "releases st = []" and h: "objs st h = Some w0" and s0: "string w0 = s0"
      and only: "\<forall>x. holds_release st x \<longrightarrow> x = h"
    have ha: "h \<noteq> a" using h fresh by auto
    show "releases st1 = [] \<and>
        (\<exists>h w. objs st1 h = Some w \<and> string w = s0 \<and> (\<forall>a. holds_release st1 a \<longrightarrow> a = h)) \<or>
        releases st1 = [Call_dtor d s0] \<and> (\<forall>a. \<not> holds_release st1 a)"
    proof (cases "b = h")
      case True
      then have "w = w0" using live h by simp
      then have "objs st1 a = Some w0"
        using ab by (simp add: st1)
      moreover have "\<forall>x. holds_release st1 x \<longrightarrow> x = a"
        using only True by (auto simp: holds split: if_splits)
      ultimately show ?thesis using r s0 rel by auto
    next
      case False
      then have "\<not> holds_release st b" using only by blast
      then have "\<forall>x. holds_release st1 x \<longrightarrow> x = h"
        using only by (auto simp: holds split: if_splits)
      moreover have "objs st1 h = Some w0"
        using False ha h by (simp add: st1)
      ultimately show ?thesis using r s0 rel by auto
    qed
  next
    assume r: "releases st = [Call_dtor d s0]" and none: "\<forall>x. \<not> holds_release st x"
    then have "\<forall>x. \<not> holds_release st1 x"
      by (simp add: holds)
    then show "releases st1 = [] \<and>
        (\<exists>h w. objs st1 h = Some w \<and> string w = s0 \<and> (\<forall>a. holds_release st1 a \<longrightarrow> a = h)) \<or>
        releases st1 = [Call_dtor d s0] \<and> (\<forall>a. \<not> holds_release st1 a)"
      using r rel by simp
  qed
qed

lemma release_right_move_assign:
  assumes inv: "release_right d s0 st" and d: "dtor s0 = Some d"
    and run: "move_assign a b st = Returns st1"
  shows "release_right d s0 st1"
proof (cases "a = b")
  case True
  then have "st1 = st"
    using run by (auto simp: move_assign_def split: option.splits)
  then show ?thesis using inv by simp
next
  case ab: False
  from run obtain t w where ta: "objs st a = Some t" and live: "objs st b = Some w"
    by (auto simp: move_assign_def split: option.splits)
  from run have st1: "st1 = st\<lparr>objs := (objs st)(a \<mapsto> w,
      b \<mapsto> \<lparr>string = null_string, obj = None\<rparr>),
      events := Py_XDECREF (obj t) (call_dtor (string t) (events st))\<rparr>"
    by (simp add: move_assign_live [OF ta live ab])
  have rel: "releases st1 =
      releases st @ (case dtor (string t) of None \<Rightarrow> [] | Some d' \<Rightarrow> [Call_dtor d' (string t)])"
    by (simp add: st1 releases_def releases_XDECREF releases_call_dtor)
  have holds: "holds_release st1 x =
      (if x = b then False else if x = a then holds_release st b else holds_release st x)" for x
    using ab by (simp add: st1 holds_release_def live)
  have holds_a: "holds_release st a = (dtor (string t) \<noteq> None)"
    by (simp add: holds_release_def ta)
  from inv show ?thesis
    unfolding release_right_def
  proof (elim disjE conjE exE)
    fix h w0
    assume r: "releases st = []" and h: "objs st h = Some w0" and s0: "string w0 = s0"
      and only: "\<forall>x. holds_release st x \<longrightarrow> x = h"
    show "releases st1 = [] \<and>
        (\<exists>h w. objs st1 h = Some w \<and> string w = s0 \<and> (\<forall>a. holds_release st1 a \<longrightarrow> a = h)) \<or>
        releases st1 = [Call_dtor d s0] \<and> (\<forall>a. \<not> holds_release st1 a)"
    proof (cases "a = h")
      case True
      then have "t = w0" using ta h by simp
      then have "releases st1 = [Call_dtor d s0]"
        by (simp add: rel r s0 d)
      moreover have "\<not> holds_release st b"
        using only True ab by blast
      then have "\<forall>x. \<not> holds_release st1 x"
        using only True by (auto simp: holds split: if_splits)
      ultimately show ?thesis by blast
    next
      case ah: False
      then have "\<not> holds_release st a" using only by blast
      then have r1: "releases st1 = []"
        by (simp add: rel r holds_a)
      show ?thesis
      proof (cases "b = h")
        case True
        then have "w = w0" using live h by simp
        then have "objs st1 a = Some w0"
          using ab by (simp add: st1)
        moreover have "\<forall>x. holds_release st1 x \<longrightarrow> x = a"
          using only True by (auto simp: holds split: if_splits)
        ultimately show ?thesis using r1 s0 by auto
      next
        case False
        then have "\<not> holds_release st b" using only by blast
        then have "\<forall>x. holds_release st1 x \<longrightarrow> x = h"
          using only by (auto simp: holds split: if_splits)
        moreover have "objs st1 h = Some w0"
          using False ah h by (simp add: st1)
        ultimately show ?thesis using r1 s0 by auto
      qed
    qed
  next
    assume r: "releases st = [Call_dtor d s0]" and none: "\<forall>x. \<not> holds_release st x"
    then have "releases st1 = [Call_dtor d s0]"
      using holds_a by (simp add: rel)
    moreover have "\<forall>x. \<not> holds_release st1 x"
      using none by (simp add: holds)
    ultimately show "releases st1 = [] \<and>
        (\<exists>h w. objs st1 h = Some w \<and> string w = s0 \<and> (\<forall>a. holds_release st1 a \<longrightarrow> a = h)) \<or>
        releases st1 = [Call_dtor d s0] \<and> (\<forall>a. \<not> holds_release st1 a)"
      by blast
  qed
qed

lemma release_right_step:
  assumes "release_right d s0 st" and "dtor s0 = Some d" and "step x st = Returns st1"
  shows "release_right d s0 st1"
  using assms
  by (cases x)
    (auto intro: release_right_default release_right_move release_right_move_assign
      release_right_destroy)

lemma release_right_run:
  assumes "release_right d s0 st" and "dtor s0 = Some d" and "run xs st = Returns st1"
  shows "release_right d s0 st1"
  using assms
proof (induction xs arbitrary: st)
  case Nil
  then show ?case by simp
next
  case (Cons x xs)
  from Cons.prems(3) obtain st2 where s: "step x st = Returns st2" and r: "run xs st2 = Returns st1"
    by (auto split: outcome.splits)
  have "release_right d s0 st2"
    using Cons.prems(1,2) s by (rule release_right_step)
  then show ?case
    using Cons.prems(2) r by (rule Cons.IH)
qed

lemma release_right_initial:
  assumes "objs st a = Some w" and "\<forall>x. x \<noteq> a \<longrightarrow> \<not> holds_release st x"
    and "releases st = []"
  shows "release_right d (string w) st"
  using assms by (auto simp: release_right_def)

text \<open>
  Claim C7. Destroying a wrapper that holds a release callback and an owner calls
  the callback once, on the wrapper's string, and then decrements the owner once.
  Move construction and move assignment from another wrapper leave the source as
  the null wrapper (\<open>null_string\<close>, no owner), and destroying a null wrapper makes
  no call. Hence, for a wrapper that is the only one in the store to hold a release
  callback and any client that default constructs, moves, move-assigns and destroys
  wrappers, the release callback has been called at most once, on the original
  string; once every wrapper is destroyed it has been called exactly once.
\<close>

theorem RF_StringWrapper_releases_once:
  "(objs st a = Some w \<and> dtor (string w) = Some d \<and> obj w = Some p \<longrightarrow>
      RF_StringWrapper_destroy a st =
        Returns (st\<lparr>objs := (objs st)(a := None),
                   events := events st @ [Call_dtor d (string w), Py_DECREF p]\<rparr>)) \<and>
   (objs st b = Some w \<and> objs st a = None \<longrightarrow>
      RF_StringWrapper_move a b st =
        Returns (st\<lparr>objs := (objs st)(a \<mapsto> w, b \<mapsto> \<lparr>string = null_string, obj = None\<rparr>)\<rparr>)) \<and>
   (objs st a = Some t \<and> objs st b = Some w \<and> a \<noteq> b \<longrightarrow>
      move_assign a b st =
        Returns (st\<lparr>objs := (objs st)(a \<mapsto> w, b \<mapsto> \<lparr>string = null_string, obj = None\<rparr>),
                   events := Py_XDECREF (obj t) (call_dtor (string t) (events st))\<rparr>)) \<and>
   (objs st b = Some \<lparr>string = null_string, obj = None\<rparr> \<longrightarrow>
      RF_StringWrapper_destroy b st = Returns (st\<lparr>objs := (objs st)(b := None)\<rparr>)) \<and>
   (objs st0 a0 = Some w0 \<and> dtor (string w0) = Some d0 \<and>
    (\<forall>x. x \<noteq> a0 \<longrightarrow> \<not> holds_release st0 x) \<and> releases st0 = [] \<and>
    run ops st0 = Returns st' \<longrightarrow>
      (releases st' = [] \<or> releases st' = [Call_dtor d0 (string w0)]) \<and>
      ((\<forall>x. objs st' x = None) \<longrightarrow> releases st' = [Call_dtor d0 (string w0)]))"
proof (intro conjI impI)
  assume "objs st a = Some w \<and> dtor (string w) = Some d \<and> obj w = Some p"
  then show "RF_StringWrapper_destroy a st =
        Returns (st\<lparr>objs := (objs st)(a := None),
                   events := events st @ [Call_dtor d (string w), Py_DECREF p]\<rparr>)"
    by (simp add: destroy_live Py_XDECREF_def call_dtor_def)
next
  assume "objs st b = Some w \<and> objs st a = None"
  then show "RF_StringWrapper_move a b st =
        Returns (st\<lparr>objs := (objs st)(a \<mapsto> w, b \<mapsto> \<lparr>string = null_string, obj = None\<rparr>)\<rparr>)"
    by (simp add: move_live)
next
  assume "objs st a = Some t \<and> objs st b = Some w \<and> a \<noteq> b"
  then show "move_assign a b st =
        Returns (st\<lparr>objs := (objs st)(a \<mapsto> w, b \<mapsto> \<lparr>string = null_string, obj = None\<rparr>),
                   events := Py_XDECREF (obj t) (call_dtor (string t) (events st))\<rparr>)"
    by (simp add: move_assign_live)
next
  assume "objs st b = Some \<lparr>string = null_string, obj = None\<rparr>"
  then show "RF_StringWrapper_destroy b st = Returns (st\<lparr>objs := (objs st)(b := None)\<rparr>)"
    by (simp add: destroy_live Py_XDECREF_def call_dtor_def)
next
  assume life: "objs st0 a0 = Some w0 \<and> dtor (string w0) = Some d0 \<and>
    (\<forall>x. x \<noteq> a0 \<longrightarrow> \<not> holds_release st0 x) \<and> releases st0 = [] \<and>
    run ops st0 = Returns st'"
  then have "release_right d0 (string w0) st0"
    using release_right_initial [of st0 a0 w0 d0] by blast
  then have inv: "release_right d0 (string w0) st'"
    using life by (blast intro: release_right_run)
  then show "releases st' = [] \<or> releases st' = [Call_dtor d0 (string w0)]"
    by (auto simp: release_right_def)
  show "releases st' = [Call_dtor d0 (string w0)]" if "\<forall>x. objs st' x = None"
    using inv that by (auto simp: release_right_def)
qed

theorem RF_StringWrapper_releases_once_witness:
  "objs one_wrapper 0 = Some owning_wrapper \<and> dtor (string owning_wrapper) = Some 7 \<and>
   obj owning_wrapper = Some 9 \<and> objs one_wrapper 1 = None \<and>
   RF_StringWrapper_destroy 0 one_wrapper =
     Returns \<lparr>objs = Map.empty, events = [Call_dtor 7 owned_string, Py_DECREF 9]\<rparr> \<and>
   RF_StringWrapper_move 1 0 one_wrapper =
     Returns \<lparr>objs = Map.empty(1 \<mapsto> owning_wrapper, 0 \<mapsto> \<lparr>string = null_string, obj = None\<rparr>),
              events = []\<rparr> \<and>
   RF_StringWrapper_destroy 0
     \<lparr>objs = Map.empty(1 \<mapsto> owning_wrapper, 0 \<mapsto> \<lparr>string = null_string, obj = None\<rparr>),
      events = []\<rparr> =
     Returns \<lparr>objs = Map.empty(1 \<mapsto> owning_wrapper), events = []\<rparr> \<and>
   move_assign 0 1
     \<lparr>objs = Map.empty(1 \<mapsto> owning_wrapper, 0 \<mapsto> \<lparr>string = null_string, obj = None\<rparr>),
      events = []\<rparr> =
     Returns \<lparr>objs = Map.empty(0 \<mapsto> owning_wrapper, 1 \<mapsto> \<lparr>string = null_string, obj = None\<rparr>),
              events = []\<rparr> \<and>
   releases one_wrapper = [] \<and>
   run sample_ops one_wrapper =
     Returns \<lparr>objs = Map.empty, events = [Call_dtor 7 owned_string, Py_DECREF 9]\<rparr> \<and>
   releases \<lparr>objs = Map.empty, events = [Call_dtor 7 owned_string, Py_DECREF 9]\<rparr> =
     [Call_dtor 7 owned_string]"
proof -
  let ?moved = "\<lparr>objs = Map.empty(1 \<mapsto> owning_wrapper,
    0 \<mapsto> \<lparr>string = null_string, obj = None\<rparr>), events = []\<rparr>"
  let ?final = "\<lparr>objs = Map.empty, events = [Call_dtor 7 owned_string, Py_DECREF 9]\<rparr>"
  have live: "objs one_wrapper 0 = Some owning_wrapper \<and> dtor (string owning_wrapper) = Some 7 \<and>
    obj owning_wrapper = Some 9"
    by (simp add: one_wrapper_def owning_wrapper_def owned_string_def)
  have fresh: "objs one_wrapper 0 = Some owning_wrapper \<and> objs one_wrapper 1 = None"
    by (simp add: one_wrapper_def)
  have null: "objs ?moved 0 = Some \<lparr>string = null_string, obj = None\<rparr>"
    by simp
  have two: "objs ?moved 0 = Some \<lparr>string = null_string, obj = None\<rparr> \<and>
    objs ?moved 1 = Some owning_wrapper \<and> (0::nat) \<noteq> 1"
    by simp
  have start: "(\<forall>x. x \<noteq> 0 \<longrightarrow> \<not> holds_release one_wrapper x) \<and> releases one_wrapper = []"
    by (simp add: one_wrapper_def holds_release_def releases_def)
  have run: "run sample_ops one_wrapper = Returns ?final"
    by (simp add: sample_ops_def one_wrapper_def RF_StringWrapper_move_def
        RF_StringWrapper_default_def swap_wrappers_def move_assign_def
        RF_StringWrapper_destroy_def owning_wrapper_def owned_string_def Py_XDECREF_def
        call_dtor_def null_string_def)
  have gone: "\<forall>x. objs ?final x = None"
    by simp
  note t1 = RF_StringWrapper_releases_once
    [where st = one_wrapper and a = 0 and w = owning_wrapper and d = 7 and p = 9
       and ?st0.0 = one_wrapper and ?a0.0 = 0 and ?w0.0 = owning_wrapper and ?d0.0 = 7
       and ops = sample_ops and st' = ?final]
  note t2 = RF_StringWrapper_releases_once
    [where st = one_wrapper and a = 1 and b = 0 and w = owning_wrapper]
  note t3 = RF_StringWrapper_releases_once
    [where st = ?moved and a = 0 and b = 1 and w = owning_wrapper
       and t = "\<lparr>string = null_string, obj = None\<rparr>"]
  note t4 = RF_StringWrapper_releases_once [where st = ?moved and b = 0]
  have a: "RF_StringWrapper_destroy 0 one_wrapper = Returns ?final"
    using t1 [THEN conjunct1] live
    by (simp add: one_wrapper_def owning_wrapper_def)
  have b: "RF_StringWrapper_move 1 0 one_wrapper = Returns ?moved"
    using t2 [THEN conjunct2, THEN conjunct1] fresh
    by (simp add: one_wrapper_def)
  have c: "RF_StringWrapper_destroy 0 ?moved =
      Returns \<lparr>objs = Map.empty(1 \<mapsto> owning_wrapper), events = []\<rparr>"
    using t4 [THEN conjunct2, THEN conjunct2, THEN conjunct2, THEN conjunct1] null
    by simp
  have d: "move_assign 0 1 ?moved =
      Returns \<lparr>objs = Map.empty(0 \<mapsto> owning_wrapper,
        1 \<mapsto> \<lparr>string = null_string, obj = None\<rparr>), events = []\<rparr>"
    using t3 [THEN conjunct2, THEN conjunct2, THEN conjunct1] two
    by (simp add: Py_XDECREF_def call_dtor_def)
  have e: "releases ?final = [Call_dtor 7 owned_string]"
    using t1 [THEN conjunct2, THEN conjunct2, THEN conjunct2, THEN conjunct2] start live run gone
    by (simp add: owning_wrapper_def)
  show ?thesis
    using live fresh a b c d start run e by simp
qed

text \<open>
  Claim C10. Move-assigning a live wrapper to itself returns the state as it was:
  the wrapper keeps its string and its owner, and no callback and no reference
  count operation is recorded.
\<close>

theorem move_assign_self_identity:
  "objs st a = Some w \<Longrightarrow> move_assign a a st = Returns st"
  by (rule move_assign_self)

theorem move_assign_self_identity_witness:
  "objs one_wrapper 0 = Some owning_wrapper \<and> move_assign 0 0 one_wrapper = Returns one_wrapper"
  using move_assign_self_identity [of one_wrapper 0 owning_wrapper]
  by (simp add: one_wrapper_def)

section \<open>Python strings\<close>

lemma PYTHON_VERSION_3_10: "PYTHON_VERSION 3 10 0 = 0x030A0000"
  by (simp add: PYTHON_VERSION_def)

text \<open>
  Claim C8. \<open>convert_string\<close> gives a bytes object the tag \<open>RF_UINT8\<close> and its
  number of bytes as length; a unicode object gets \<open>RF_UINT8\<close>, \<open>RF_UINT16\<close> or
  \<open>RF_UINT32\<close> for the one-, two- and four-byte kind, and its number of code
  points as length. The three tags select elements of 8, 16 and 32 bits.
  \<open>validate_string\<close> accepts bytes, accepts unicode (when \<open>PyUnicode_READY\<close>
  succeeds or is not compiled in), and throws \<open>PythonTypeError\<close> for anything
  else, which the error bridge installs as \<open>TypeError\<close> with the caller's message.
\<close>

theorem convert_string_table:
  "convert_string (PyBytes a bs) =
     Returns \<lparr>dtor = None, kind = RF_UINT8, data = a, length' = length bs, context' = None\<rparr> \<and>
   convert_string (PyUnicode ready PyUnicode_1BYTE_KIND a us) =
     Returns \<lparr>dtor = None, kind = RF_UINT8, data = a, length' = length us, context' = None\<rparr> \<and>
   convert_string (PyUnicode ready PyUnicode_2BYTE_KIND a us) =
     Returns \<lparr>dtor = None, kind = RF_UINT16, data = a, length' = length us, context' = None\<rparr> \<and>
   convert_string (PyUnicode ready PyUnicode_4BYTE_KIND a us) =
     Returns \<lparr>dtor = None, kind = RF_UINT32, data = a, length' = length us, context' = None\<rparr> \<and>
   map_of LIST_OF_CASES RF_UINT8 = Some Uint8_t \<and> 8 * sizeof Uint8_t = 8 \<and>
   map_of LIST_OF_CASES RF_UINT16 = Some Uint16_t \<and> 8 * sizeof Uint16_t = 16 \<and>
   map_of LIST_OF_CASES RF_UINT32 = Some Uint32_t \<and> 8 * sizeof Uint32_t = 32 \<and>
   validate_string v (PyBytes a bs) err = Inr () \<and>
   (ready = 0 \<or> PYTHON_VERSION 3 10 0 \<le> v \<longrightarrow>
      validate_string v (PyUnicode ready k a us) err = Inr ()) \<and>
   validate_string v PyOther err = Inl (Exn PythonTypeError err) \<and>
   (pending w = None \<longrightarrow>
      CppExn2PyErr (Some (Exn PythonTypeError err)) w =
        Returns (PyErr_SetString PyExc_TypeError err w))"
  by (auto simp: convert_string_def validate_string_def PyUnicode_1BYTE_KIND_def
      PyUnicode_2BYTE_KIND_def PyUnicode_4BYTE_KIND_def map_of_LIST_OF_CASES RF_UINT8_def
      RF_UINT16_def RF_UINT32_def RF_UINT64_def CppExn2PyErr_by_class)

theorem convert_string_table_witness:
  "((0::int) = 0 \<or> PYTHON_VERSION 3 10 0 \<le> PYTHON_VERSION 3 9 0) \<and>
   validate_string (PYTHON_VERSION 3 9 0) (PyUnicode 0 2 4096 [1041, 1042]) ''expected str'' =
     Inr () \<and>
   convert_string (PyUnicode 0 2 4096 [1041, 1042]) =
     Returns \<lparr>dtor = None, kind = 1, data = 4096, length' = 2, context' = None\<rparr> \<and>
   validate_string (PYTHON_VERSION 3 9 0) PyOther ''expected str'' =
     Inl (Exn PythonTypeError ''expected str'') \<and>
   pending sample_world = None \<and>
   CppExn2PyErr (Some (Exn PythonTypeError ''expected str'')) sample_world =
     Returns (sample_world\<lparr>pending := Some (PyExc_TypeError, ''expected str'')\<rparr>)"
  using convert_string_table
    [of 4096 "[]" 0 "[1041, 1042]" "PYTHON_VERSION 3 9 0" "''expected str''" 2 sample_world]
  by (simp add: PyUnicode_2BYTE_KIND_def RF_UINT16_def sample_world_def PyErr_SetString_def)

section \<open>The scorer\<close>

text \<open>
  Claim C4, as the code has it. With \<open>str_count\<close> other than 1 the body of
  \<open>scorer_init_f64\<close> goes straight to its \<open>throw\<close>. The function returns \<open>false\<close>
  and leaves \<open>*self\<close> as it was; no scorer object is constructed (\<open>heap\<close> is
  unchanged) and neither the buffers nor the constructor play any part in the
  result. The one allocation made is that of \<open>std::logic_error\<close> for its message.
  When it succeeds, the exception is the not-supported \<open>std::logic_error\<close>, and
  the error indicator holds the earlier error if one was pending and
  \<open>RuntimeError\<close> with that message otherwise. When it fails, the exception is
  \<open>std::bad_alloc\<close>, nothing has been allocated, and the error indicator holds the
  earlier error if one was pending and \<open>MemoryError\<close> otherwise.
\<close>

theorem scorer_init_f64_count:
  assumes "str_count \<noteq> 1"
  shows
    "(next_addr w < capacity w \<longrightarrow>
        scorer_init_f64_try CachedScorer str_count strings w =
          Returns (Inl (Exn Std_logic_error ''Only str_count == 1 supported''),
            w\<lparr>next_addr := Suc (next_addr w), allocs := Suc (allocs w)\<rparr>) \<and>
        scorer_init_f64 CachedScorer self str_count strings w =
          Returns (False, self,
            w\<lparr>next_addr := Suc (next_addr w), allocs := Suc (allocs w),
              pending := Some (case pending w of
                  None \<Rightarrow> (PyExc_RuntimeError, ''Only str_count == 1 supported'')
                | Some e \<Rightarrow> e)\<rparr>)) \<and>
     (\<not> next_addr w < capacity w \<longrightarrow>
        scorer_init_f64_try CachedScorer str_count strings w =
          Returns (Inl (Exn Std_bad_alloc ''std::bad_alloc''), w) \<and>
        scorer_init_f64 CachedScorer self str_count strings w =
          Returns (False, self,
            w\<lparr>pending := Some (case pending w of
                  None \<Rightarrow> (PyExc_MemoryError, ''std::bad_alloc'')
                | Some e \<Rightarrow> e)\<rparr>))"
proof -
  have bridge: "catch_all (Exn c msg) w1 =
      Returns (w1\<lparr>pending := Some (case pending w1 of None \<Rightarrow> (ty, msg) | Some e \<Rightarrow> e)\<rparr>)"
    if "\<And>w' :: 'a world. pending w' = None \<Longrightarrow>
          CppExn2PyErr (Some (Exn c msg)) w' = Returns (PyErr_SetString ty msg w')"
    for c msg ty and w1 :: "'a world"
  proof (cases "pending w1")
    case None
    then have "CppExn2PyErr (Some (Exn c msg)) w1 =
        Returns (w1\<lparr>pending := Some (case pending w1 of None \<Rightarrow> (ty, msg) | Some e \<Rightarrow> e)\<rparr>)"
      by (simp add: that PyErr_SetString_def)
    then show ?thesis by (rule catch_all_bridge)
  next
    case (Some e)
    then have "CppExn2PyErr (Some (Exn c msg)) w1 =
        Returns (w1\<lparr>pending := Some (case pending w1 of None \<Rightarrow> (ty, msg) | Some e \<Rightarrow> e)\<rparr>)"
      by (simp add: CppExn2PyErr_pending)
    then show ?thesis by (rule catch_all_bridge)
  qed
  show ?thesis
  proof (intro conjI impI)
    assume room: "next_addr w < capacity w"
    let ?w1 = "w\<lparr>next_addr := Suc (next_addr w), allocs := Suc (allocs w)\<rparr>"
    show body: "scorer_init_f64_try CachedScorer str_count strings w =
        Returns (Inl (Exn Std_logic_error ''Only str_count == 1 supported''), ?w1)"
      using assms room
      by (simp add: scorer_init_f64_try_def std_logic_error_def operator_new_def throw_def)
    have "catch_all (Exn Std_logic_error ''Only str_count == 1 supported'') ?w1 =
        Returns (?w1\<lparr>pending := Some (case pending ?w1 of
            None \<Rightarrow> (PyExc_RuntimeError, ''Only str_count == 1 supported'')
          | Some e \<Rightarrow> e)\<rparr>)"
      by (rule bridge) (simp add: CppExn2PyErr_by_class)
    then show "scorer_init_f64 CachedScorer self str_count strings w =
        Returns (False, self,
          w\<lparr>next_addr := Suc (next_addr w), allocs := Suc (allocs w),
            pending := Some (case pending w of
                None \<Rightarrow> (PyExc_RuntimeError, ''Only str_count == 1 supported'')
              | Some e \<Rightarrow> e)\<rparr>)"
      using body by (simp add: scorer_init_f64_def)
  next
    assume full: "\<not> next_addr w < capacity w"
    show body: "scorer_init_f64_try CachedScorer str_count strings w =
        Returns (Inl (Exn Std_bad_alloc ''std::bad_alloc''), w)"
      using assms full
      by (simp add: scorer_init_f64_try_def std_logic_error_def operator_new_def throw_def)
    have "catch_all (Exn Std_bad_alloc ''std::bad_alloc'') w =
        Returns (w\<lparr>pending := Some (case pending w of
            None \<Rightarrow> (PyExc_MemoryError, ''std::bad_alloc'')
          | Some e \<Rightarrow> e)\<rparr>)"
      by (rule bridge) (simp add: CppExn2PyErr_by_class)
    then show "scorer_init_f64 CachedScorer self str_count strings w =
        Returns (False, self,
          w\<lparr>pending := Some (case pending w of
                None \<Rightarrow> (PyExc_MemoryError, ''std::bad_alloc'')
              | Some e \<Rightarrow> e)\<rparr>)"
      using body by (simp add: scorer_init_f64_def)
  qed
qed

theorem scorer_init_f64_count_witness:
  "(2::nat) \<noteq> 1 \<and> (0::nat) \<noteq> 1 \<and>
   next_addr sample_world < capacity sample_world \<and>
   scorer_init_f64 sample_CachedScorer sample_scorer_func 2
     [sample_string RF_UINT8, sample_string RF_UINT8] sample_world =
     Returns (False, sample_scorer_func,
       sample_world\<lparr>next_addr := 2, allocs := 1,
         pending := Some (PyExc_RuntimeError, ''Only str_count == 1 supported'')\<rparr>) \<and>
   next_addr failing_world < capacity failing_world \<and>
   scorer_init_f64 sample_CachedScorer sample_scorer_func 0 [] failing_world =
     Returns (False, sample_scorer_func, failing_world\<lparr>next_addr := 2, allocs := 1\<rparr>) \<and>
   \<not> next_addr exhausted_world < capacity exhausted_world \<and>
   scorer_init_f64 sample_CachedScorer sample_scorer_func 2
     [sample_string RF_UINT8, sample_string RF_UINT8] exhausted_world =
     Returns (False, sample_scorer_func,
       exhausted_world\<lparr>pending := Some (PyExc_MemoryError, ''std::bad_alloc'')\<rparr>) \<and>
   scorer_init_f64 sample_CachedScorer sample_scorer_func 1 [sample_string RF_UINT8] sample_world =
     Returns (True, sample_scorer_func,
       sample_world\<lparr>heap := (\<lambda>a. None)(1 \<mapsto> 3), next_addr := 2, allocs := 1\<rparr>)"
proof -
  have one: "scorer_init_f64 sample_CachedScorer sample_scorer_func 1 [sample_string RF_UINT8]
      sample_world =
     Returns (True, sample_scorer_func,
       sample_world\<lparr>heap := (\<lambda>a. None)(1 \<mapsto> 3), next_addr := 2, allocs := 1\<rparr>)"
    by (simp add: scorer_init_f64_def scorer_init_f64_try_def visit_def map_of_LIST_OF_CASES
        sample_string_def get_ScorerContext_f64_def operator_new_def sample_world_def
        sample_CachedScorer_def sample_scorer_func_def)
  have two: "(2::nat) \<noteq> 1" and zero: "(0::nat) \<noteq> 1"
    by simp_all
  show ?thesis
    using scorer_init_f64_count [OF two, of sample_world sample_CachedScorer
        "[sample_string RF_UINT8, sample_string RF_UINT8]" sample_scorer_func]
      scorer_init_f64_count [OF zero, of failing_world sample_CachedScorer "[]"
        sample_scorer_func]
      scorer_init_f64_count [OF two, of exhausted_world sample_CachedScorer
        "[sample_string RF_UINT8, sample_string RF_UINT8]" sample_scorer_func]
      one
    by (simp add: sample_world_def failing_world_def exhausted_world_def)
qed

text \<open>
  Claim C4 as stated has the call make no heap allocation and fail with the
  not-supported error. In the sample state, which has counted no allocation, the
  call with two buffers leaves the count at one; in the state with no storage left
  the same call installs \<open>MemoryError\<close>, not the not-supported error.
\<close>

theorem scorer_init_f64_count_counterexample:
  "allocs sample_world = 0 \<and>
   scorer_init_f64 sample_CachedScorer sample_scorer_func 2
     [sample_string RF_UINT8, sample_string RF_UINT8] sample_world =
     Returns (False, sample_scorer_func,
       sample_world\<lparr>next_addr := 2, allocs := 1,
         pending := Some (PyExc_RuntimeError, ''Only str_count == 1 supported'')\<rparr>) \<and>
   scorer_init_f64 sample_CachedScorer sample_scorer_func 2
     [sample_string RF_UINT8, sample_string RF_UINT8] exhausted_world =
     Returns (False, sample_scorer_func,
       exhausted_world\<lparr>pending := Some (PyExc_MemoryError, ''std::bad_alloc'')\<rparr>)"
  by (simp add: scorer_init_f64_def scorer_init_f64_try_def std_logic_error_def
      operator_new_def throw_def catch_all_def PyGILState_Ensure_def PyGILState_Release_def
      CppExn2PyErr_def PyErr_Occurred_def PyErr_SetString_def sample_world_def
      exhausted_world_def)



end
